theory Spec2Isabelle
  imports Complex_Main
begin

section \<open>Text received from the subprocess\<close>

text \<open>
  A chunk of subprocess output is the string \<^verbatim>\<open>data.toString()\<close>. Strings are
  modelled as lists of 8-bit characters, so the line terminators a chunk can contain are
  line feed and carriage return.
\<close>

definition ESC :: char where
  "ESC = CHR 0x1B"

definition LF :: char where
  "LF = CHR 0x0A"

definition CR :: char where
  "CR = CHR 0x0D"

definition GT :: char where
  "GT = CHR ''>''"

definition lineTerminator :: "char \<Rightarrow> bool" where
  "lineTerminator c = (c = LF \<or> c = CR)"

text \<open>
  The completion pattern is the regular expression \<^verbatim>\<open>/^\u{001B}.*\n>\s?/mu\<close>.
  \<open>match_here\<close> matches \<^verbatim>\<open>\u{001B}.*\n>\s?\<close> at the head of a string: an escape
  character, then characters other than line terminators (the dot), then a line feed and
  \<^verbatim>\<open>>\<close>. The dot cannot step over a line terminator, so the line feed of the
  pattern is the first line terminator after the escape character; the optional blank
  \<^verbatim>\<open>\s?\<close> never makes a match fail.
\<close>

definition match_here :: "string \<Rightarrow> bool" where
  "match_here s =
     (case s of
        [] \<Rightarrow> False
      | c # cs \<Rightarrow>
          c = ESC \<and>
          (case dropWhile (\<lambda>x. \<not> lineTerminator x) cs of
             a # b # _ \<Rightarrow> a = LF \<and> b = GT
           | _ \<Rightarrow> False))"

text \<open>
  With the flag \<^verbatim>\<open>m\<close> the anchor \<^verbatim>\<open>^\<close> holds at the start of the text and after
  every line terminator. \<open>test_from atStart s\<close> tries every position of \<open>s\<close>, where
  \<open>atStart\<close> tells whether the head of \<open>s\<close> is at the start of a line.
\<close>

fun test_from :: "bool \<Rightarrow> string \<Rightarrow> bool" where
  "test_from atStart [] = False"
| "test_from atStart (c # cs) =
     ((atStart \<and> match_here (c # cs)) \<or> test_from (lineTerminator c) cs)"

definition regex_test :: "string \<Rightarrow> bool" where
  "regex_test text = test_from True text"

text \<open>\<^verbatim>\<open>s.endsWith('>')\<close> and \<^verbatim>\<open>s.slice(0, -1)\<close>.\<close>

definition endsWith_gt :: "string \<Rightarrow> bool" where
  "endsWith_gt s = (s \<noteq> [] \<and> last s = GT)"

definition slice_0_minus1 :: "string \<Rightarrow> string" where
  "slice_0_minus1 s = butlast s"


section \<open>Promises and the closures of pending calls\<close>

datatype error = Error string

datatype ('a, 'e) promise = Pending | Resolved 'a | Rejected 'e

text \<open>A promise settles once: later calls of its resolve and reject functions do nothing.\<close>

definition resolve :: "'a \<Rightarrow> ('a, 'e) promise \<Rightarrow> ('a, 'e) promise" where
  "resolve v p = (case p of Pending \<Rightarrow> Resolved v | _ \<Rightarrow> p)"

definition reject :: "'e \<Rightarrow> ('a, 'e) promise \<Rightarrow> ('a, 'e) promise" where
  "reject e p = (case p of Pending \<Rightarrow> Rejected e | _ \<Rightarrow> p)"

text \<open>
  One call of \<^verbatim>\<open>prompt\<close> that got past the null check owns a closure: the handle
  \<^verbatim>\<open>bot\<close> it captured, its \<^verbatim>\<open>response\<close> buffer, its \<^verbatim>\<open>timeoutId\<close> and the
  promise it returned. \<open>timeoutId = Some d\<close> is an armed timer that fires in \<open>d\<close>
  milliseconds; \<open>None\<close> is no timer, or a cleared or fired one. \<open>listening\<close> tells
  whether the pair \<^verbatim>\<open>onStdoutData\<close>, \<^verbatim>\<open>onStdoutError\<close> of this call is registered on
  \<^verbatim>\<open>bot.stdout\<close>: the two listeners are added together and removed together.
\<close>

record prompt_call =
  call_bot :: nat
  response :: string
  timeoutId :: "nat option"
  listening :: bool
  settled :: "(string, error) promise"

text \<open>
  One call of \<^verbatim>\<open>open\<close>: the process it spawned, whether its \<^verbatim>\<open>startupListener\<close> is
  registered, and whether the promise it awaits has been resolved.
\<close>

record open_call =
  open_bot :: nat
  startupListener :: bool
  ready :: bool

datatype download = DownloadExecutable | DownloadModel

text \<open>
  The object and what it has done to its environment. The fields \<open>bot_proc\<close> (the field \<^verbatim>\<open>bot\<close>) to
  \<open>downloadPromises\<close> are the private fields of the class. A process handle is the index
  of its command line in \<open>spawned\<close>; \<open>killed\<close> lists the handles \<^verbatim>\<open>kill()\<close> was called
  on, \<open>stdin_written\<close> the writes to standard inputs, \<open>downloads\<close> the calls of
  \<^verbatim>\<open>downloadExecutable\<close> and \<^verbatim>\<open>downloadModel\<close> that were started, each in order.
  \<open>files\<close> are the paths for which \<^verbatim>\<open>existsSync\<close> answers true. The values of
  \<open>decoderConfig\<close> are kept as the strings \<^verbatim>\<open>value.toString()\<close> gives.
\<close>

record gpt4all =
  bot_proc :: "nat option"
  model :: string
  decoderConfig :: "(string \<times> string) list"
  executablePath :: string
  modelPath :: string
  downloadPromises :: "nat list option"
  spawned :: "string list list"
  killed :: "nat list"
  stdin_written :: "(nat \<times> string) list"
  opens :: "open_call list"
  calls :: "prompt_call list"
  downloads :: "download list"
  files :: "string list"


section \<open>The handlers of a prompt\<close>

definition terminateAndResolve :: "string \<Rightarrow> prompt_call \<Rightarrow> prompt_call" where
  "terminateAndResolve finalResponse c =
     (let c1 = c\<lparr>listening := False\<rparr>;
          finalResponse1 =
            (if endsWith_gt finalResponse then slice_0_minus1 finalResponse
             else finalResponse)
      in c1\<lparr>settled := resolve finalResponse1 (settled c1)\<rparr>)"

definition idle_ms :: nat where
  "idle_ms = 4000"

definition onStdoutData :: "string \<Rightarrow> prompt_call \<Rightarrow> prompt_call" where
  "onStdoutData text c =
     (let c1 = (case timeoutId c of Some d \<Rightarrow> c\<lparr>timeoutId := None\<rparr> | None \<Rightarrow> c);
          c2 = (if regex_test text then terminateAndResolve (response c1) c1
                else c1\<lparr>timeoutId := Some idle_ms\<rparr>)
      in c2\<lparr>response := response c2 @ text\<rparr>)"

definition onStdoutError :: "error \<Rightarrow> prompt_call \<Rightarrow> prompt_call" where
  "onStdoutError err c = (c\<lparr>listening := False\<rparr>)\<lparr>settled := reject err (settled c)\<rparr>"

text \<open>The callback given to \<^verbatim>\<open>setTimeout\<close>, run when the timer fires.\<close>

definition onTimeout :: "prompt_call \<Rightarrow> prompt_call" where
  "onTimeout c = terminateAndResolve (response c) (c\<lparr>timeoutId := None\<rparr>)"

text \<open>\<open>n\<close> milliseconds pass: an armed timer with at most \<open>n\<close> left fires.\<close>

definition wait_call :: "nat \<Rightarrow> prompt_call \<Rightarrow> prompt_call" where
  "wait_call n c =
     (case timeoutId c of
        None \<Rightarrow> c
      | Some d \<Rightarrow> if d \<le> n then onTimeout c else c\<lparr>timeoutId := Some (d - n)\<rparr>)"

definition startupListener_run :: "string \<Rightarrow> open_call \<Rightarrow> open_call" where
  "startupListener_run text oc =
     (if GT \<notin> set text then oc else oc\<lparr>ready := True, startupListener := False\<rparr>)"


section \<open>Events of the environment\<close>

text \<open>
  The standard output of process \<open>b\<close> emits a data event: every listener registered on
  it runs with the chunk. The listeners belong to different calls and each changes the
  closure of its own call only.
\<close>

definition stdout_data :: "nat \<Rightarrow> string \<Rightarrow> gpt4all \<Rightarrow> gpt4all" where
  "stdout_data b text g =
     g\<lparr>opens := map (\<lambda>oc. if open_bot oc = b \<and> startupListener oc
                            then startupListener_run text oc else oc) (opens g),
       calls := map (\<lambda>c. if call_bot c = b \<and> listening c
                            then onStdoutData text c else c) (calls g)\<rparr>"

definition stdout_error :: "nat \<Rightarrow> error \<Rightarrow> gpt4all \<Rightarrow> gpt4all" where
  "stdout_error b err g =
     g\<lparr>calls := map (\<lambda>c. if call_bot c = b \<and> listening c
                            then onStdoutError err c else c) (calls g)\<rparr>"

text \<open>\<open>n\<close> milliseconds pass without any other event.\<close>

definition elapse :: "nat \<Rightarrow> gpt4all \<Rightarrow> gpt4all" where
  "elapse n g = g\<lparr>calls := map (wait_call n) (calls g)\<rparr>"


section \<open>The methods of the session\<close>

definition close :: "gpt4all \<Rightarrow> gpt4all" where
  "close g =
     (case bot_proc g of
        None \<Rightarrow> g
      | Some b \<Rightarrow> g\<lparr>killed := killed g @ [b], bot_proc := None\<rparr>)"

definition open_bot_args :: "gpt4all \<Rightarrow> string list" where
  "open_bot_args g =
     [executablePath g, ''--model'', modelPath g] @
     concat (map (\<lambda>(key, v). [''--'' @ key, v]) (decoderConfig g))"

text \<open>
  \<^verbatim>\<open>open\<close> up to its \<^verbatim>\<open>await\<close>: the promise it returns is settled when \<open>ready\<close> of
  the call it adds to \<open>opens\<close> becomes true.
\<close>

definition open_session :: "gpt4all \<Rightarrow> gpt4all" where
  "open_session g =
     (let g1 = close g;
          b = length (spawned g1)
      in g1\<lparr>spawned := spawned g1 @ [open_bot_args g1],
            bot_proc := Some b,
            opens := opens g1 @ [\<lparr>open_bot = b, startupListener = True, ready = False\<rparr>]\<rparr>)"

text \<open>
  \<^verbatim>\<open>prompt\<close> throws when there is no process; otherwise it returns the promise of the
  call it adds to \<open>calls\<close>, given here as the index of that call.
\<close>

definition prompt :: "string \<Rightarrow> gpt4all \<Rightarrow> (error + nat) \<times> gpt4all" where
  "prompt text g =
     (case bot_proc g of
        None \<Rightarrow> (Inl (Error ''Bot is not initialized.''), g)
      | Some b \<Rightarrow>
          (Inr (length (calls g)),
           g\<lparr>stdin_written := stdin_written g @ [(b, text @ [LF])],
             calls := calls g @
               [\<lparr>call_bot = b, response = [], timeoutId = None,
                 listening = True, settled = Pending\<rparr>]\<rparr>))"

definition proompt :: "string \<Rightarrow> gpt4all \<Rightarrow> (error + nat) \<times> gpt4all" where
  "proompt text g = prompt text g"


section \<open>Provisioning\<close>

definition existsSync :: "gpt4all \<Rightarrow> string \<Rightarrow> bool" where
  "existsSync g path = (path \<in> set (files g))"

text \<open>
  Calling \<^verbatim>\<open>downloadExecutable()\<close> or \<^verbatim>\<open>downloadModel()\<close> starts the download and
  gives its promise, here the index of the download in \<open>downloads\<close>.
\<close>

definition start_download :: "download \<Rightarrow> gpt4all \<Rightarrow> nat \<times> gpt4all" where
  "start_download d g = (length (downloads g), g\<lparr>downloads := downloads g @ [d]\<rparr>)"

text \<open>
  \<^verbatim>\<open>init\<close> returns \<^verbatim>\<open>Promise.all\<close> of a list of download promises; the result here
  is that list. The list built by a call is a local constant of that call.
\<close>

definition init :: "bool \<Rightarrow> gpt4all \<Rightarrow> nat list \<times> gpt4all" where
  "init forceDownload g =
     (case downloadPromises g of
        Some ps \<Rightarrow> (ps, g)
      | None \<Rightarrow>
          (let (ps1, g1) =
                 (if forceDownload \<or> \<not> existsSync g (executablePath g)
                  then (let (p, g') = start_download DownloadExecutable g in ([p], g'))
                  else ([], g));
               (ps2, g2) =
                 (if forceDownload \<or> \<not> existsSync g1 (modelPath g1)
                  then (let (p, g') = start_download DownloadModel g1 in (ps1 @ [p], g'))
                  else (ps1, g1))
           in (ps2, g2)))"

definition availableModels :: "string list" where
  "availableModels = [''gpt4all-lora-quantized'']"

text \<open>\<^verbatim>\<open>xs.join(sep)\<close>.\<close>

fun join :: "string \<Rightarrow> string list \<Rightarrow> string" where
  "join sep [] = []"
| "join sep [x] = x"
| "join sep (x # y # ys) = x @ sep @ join sep (y # ys)"

text \<open>
  The constructor, given the home directory and the paths that exist on the disk.
  \<open>constructed\<close> is the object once the constructor has assigned its fields.
\<close>

definition constructed :: "string \<Rightarrow> string list \<Rightarrow> string \<Rightarrow> (string \<times> string) list \<Rightarrow> gpt4all" where
  "constructed homedir disk m config =
     \<lparr>bot_proc = None, model = m, decoderConfig = config,
      executablePath = homedir @ ''/.nomic/gpt4all'',
      modelPath = homedir @ ''/.nomic/'' @ m @ ''.bin'',
      downloadPromises = None,
      spawned = [], killed = [], stdin_written = [],
      opens = [], calls = [], downloads = [], files = disk\<rparr>"

definition new_GPT4All ::
  "string \<Rightarrow> string list \<Rightarrow> string \<Rightarrow> bool \<Rightarrow> (string \<times> string) list \<Rightarrow> error + gpt4all" where
  "new_GPT4All homedir disk m forceDownload config =
     (if m \<notin> set availableModels
      then Inl (Error (''Model '' @ m @ '' is not supported. Current models supported are:'' @
                       [LF] @ join ('','' @ [LF]) availableModels))
      else
        (let g = constructed homedir disk m config
         in Inr (if forceDownload then snd (init forceDownload g) else g)))"


section \<open>Fetching a file\<close>

text \<open>
  What the code reads of an \<^verbatim>\<open>IncomingMessage\<close>: the status code, which may be
  undefined, and the headers, a header that is absent being undefined.
\<close>

record incomingMessage =
  statusCode :: "nat option"
  headers :: "string \<rightharpoonup> string"

text \<open>
  What \<^verbatim>\<open>get(url, callback)\<close> does for a URL: it calls the callback with a message,
  it throws (the URL is not valid), or the callback is never called. In the last case
  the promise awaited by \<^verbatim>\<open>followRedirects\<close> never settles, since no listener for
  errors is installed on the request.
\<close>

datatype get_result = Message incomingMessage | Throws error | NoMessage

definition redirect :: "incomingMessage \<Rightarrow> bool" where
  "redirect res = (statusCode res = Some 301 \<or> statusCode res = Some 302)"

text \<open>
  \<^verbatim>\<open>followRedirects\<close>, with the list of the URLs requested so far. The result
  \<open>None\<close> is a call that never returns: a request without answer, or a chain of
  redirects without end.
\<close>

partial_function (option) followRedirects ::
  "(string \<Rightarrow> get_result) \<Rightarrow> string option \<Rightarrow> string list \<Rightarrow>
     ((error + incomingMessage) \<times> string list) option" where
  "followRedirects get url requested =
     (case url of
        None \<Rightarrow> Some (Inl (Error ''No URL provided''), requested)
      | Some u \<Rightarrow>
          (case get u of
             NoMessage \<Rightarrow> None
           | Throws e \<Rightarrow> Some (Inl e, requested)
           | Message res \<Rightarrow>
               if redirect res
               then followRedirects get (headers res ''location'') (requested @ [u])
               else Some (Inr res, requested @ [u])))"

declare followRedirects.simps [code]

text \<open>
  \<open>redirect_chain get u us final\<close>: the answer to \<open>u\<close> is a redirect to the first URL
  of \<open>us\<close>, the answer to each URL of \<open>us\<close> a redirect to the next, and the answer to
  the last one is \<open>final\<close>, which is not a redirect.
\<close>

fun redirect_chain :: "(string \<Rightarrow> get_result) \<Rightarrow> string \<Rightarrow> string list \<Rightarrow> incomingMessage \<Rightarrow> bool" where
  "redirect_chain get u [] final =
     (case get u of Message res \<Rightarrow> res = final \<and> \<not> redirect res | _ \<Rightarrow> False)"
| "redirect_chain get u (v # vs) final =
     (case get u of
        Message res \<Rightarrow>
          redirect res \<and> headers res ''location'' = Some v \<and> redirect_chain get v vs final
      | _ \<Rightarrow> False)"

text \<open>
  The values of JavaScript numbers: not-a-number, the two infinities, and the finite
  ones, which are rationals. \<open>Num 0\<close> stands for both zeros: they are equal under
  \<^verbatim>\<open>===\<close> and both falsy.
\<close>

datatype jsnum = NaN | Num rat | PosInfinity | NegInfinity

text \<open>\<^verbatim>\<open>x || 0\<close> on a number: not-a-number and zero are the falsy numbers.\<close>

definition or_0 :: "jsnum \<Rightarrow> jsnum" where
  "or_0 x = (if x = NaN \<or> x = Num 0 then Num 0 else x)"

text \<open>
  \<^verbatim>\<open>Number(v)\<close> of a header value: the conversion of a string is the builtin of the
  language, taken as the parameter \<open>number\<close>; of undefined it is not-a-number.
\<close>

definition Number_of :: "(string \<Rightarrow> jsnum) \<Rightarrow> string option \<Rightarrow> jsnum" where
  "Number_of number v = (case v of None \<Rightarrow> NaN | Some s \<Rightarrow> number s)"

text \<open>
  \<open>Number_decimal\<close> reads the empty string as zero and a string of decimal digits as
  the number written, without rounding, and gives not-a-number on every other string.
  It is not the builtin, which rounds to a double and also reads blanks, signs,
  fractions, exponents and other radices; the two agree on short strings of digits.
  Only the examples use it; the theorems hold for every conversion.
\<close>

fun decimal :: "nat \<Rightarrow> string \<Rightarrow> nat option" where
  "decimal acc [] = Some acc"
| "decimal acc (c # cs) =
     (if 48 \<le> (of_char c :: nat) \<and> (of_char c :: nat) \<le> 57
      then decimal (10 * acc + (of_char c - 48)) cs
      else None)"

definition Number_decimal :: "string \<Rightarrow> jsnum" where
  "Number_decimal s = (case decimal 0 s of None \<Rightarrow> NaN | Some n \<Rightarrow> Num (of_nat n))"

text \<open>
  The value a download promise is rejected with: the status code, a text, or the error
  of the write stream.
\<close>

datatype reason = StatusCode nat | Text string | WriteError error

text \<open>
  What \<^verbatim>\<open>downloadFile\<close> has done when its executor has run: its promise is rejected
  with a reason; or the write stream on the destination has been created and the response
  piped into it, with the given total for the progress bar, and the promise will settle
  on the finish or the error event of the stream; or the executor itself has failed at
  an \<^verbatim>\<open>await\<close>, or waits there for ever, and the promise stays pending, since nothing
  calls \<^verbatim>\<open>reject\<close> for an exception of the executor.
\<close>

datatype download_result = Rejects reason | Piping string jsnum | NeverSettles

text \<open>
  The disk as the download sees it: the directories made and the paths on which a
  write stream has been created. The directory of a download is the path of the URL
  \<^verbatim>\<open>file://<home>/.nomic/\<close>, taken here as the home directory followed by
  \<^verbatim>\<open>/.nomic/\<close>; this is the path as long as the home directory holds none of the
  characters that a URL reads as a query, a fragment or an escape. A \<^verbatim>\<open>mkdir\<close> that
  fails is not modelled.
\<close>

record disk =
  directories :: "string list"
  write_streams :: "string list"

definition mkdir_recursive :: "string \<Rightarrow> disk \<Rightarrow> disk" where
  "mkdir_recursive dir d =
     (if dir \<in> set (directories d) then d else d\<lparr>directories := directories d @ [dir]\<rparr>)"

definition createWriteStream :: "string \<Rightarrow> disk \<Rightarrow> disk" where
  "createWriteStream path d = d\<lparr>write_streams := write_streams d @ [path]\<rparr>"

definition downloadFile ::
  "(string \<Rightarrow> jsnum) \<Rightarrow> (string \<Rightarrow> get_result) \<Rightarrow> string \<Rightarrow> string \<Rightarrow> string \<Rightarrow> disk \<Rightarrow>
     download_result \<times> disk" where
  "downloadFile number get homedir url destination d =
     (let d1 = mkdir_recursive (homedir @ ''/.nomic/'') d
      in case followRedirects get (Some url) [] of
           None \<Rightarrow> (NeverSettles, d1)
         | Some (Inl e, requested) \<Rightarrow> (NeverSettles, d1)
         | Some (Inr res, requested) \<Rightarrow>
             if statusCode res \<noteq> Some 200
             then (Rejects (case statusCode res of
                              None \<Rightarrow> Text ''Failed to download''
                            | Some n \<Rightarrow> if n = 0 then Text ''Failed to download''
                                        else StatusCode n), d1)
             else
               (let totalSize = or_0 (Number_of number (headers res ''content-length''))
                in if totalSize = Num 0
                   then (Rejects (Text ''Failed to download: No download size provided by server''), d1)
                   else (Piping destination totalSize, createWriteStream destination d1)))"


section \<open>Runs of the session\<close>

text \<open>
  What can happen to an object, one event after the other: its methods are called, the
  standard output of a process emits a chunk or an error, time passes.
\<close>

datatype event =
    Data nat string
  | StreamError nat error
  | Wait nat
  | CallPrompt string
  | CallOpen
  | CallClose
  | CallInit bool

fun step :: "event \<Rightarrow> gpt4all \<Rightarrow> gpt4all" where
  "step (Data b text) g = stdout_data b text g"
| "step (StreamError b err) g = stdout_error b err g"
| "step (Wait n) g = elapse n g"
| "step (CallPrompt text) g = snd (prompt text g)"
| "step CallOpen g = open_session g"
| "step CallClose g = close g"
| "step (CallInit forceDownload) g = snd (init forceDownload g)"

fun run :: "event list \<Rightarrow> gpt4all \<Rightarrow> gpt4all" where
  "run [] g = g"
| "run (e # es) g = run es (step e g)"

text \<open>The text that process \<open>b\<close> emits in a list of events, chunk after chunk.\<close>

fun received :: "nat \<Rightarrow> event list \<Rightarrow> string" where
  "received b [] = []"
| "received b (Data b' text # es) = (if b' = b then text else []) @ received b es"
| "received b (e # es) = received b es"

text \<open>A text as \<^verbatim>\<open>terminateAndResolve\<close> resolves it: without one final \<^verbatim>\<open>>\<close>.\<close>

definition without_final_gt :: "string \<Rightarrow> string" where
  "without_final_gt s = (if endsWith_gt s then slice_0_minus1 s else s)"

text \<open>
  The call \<open>c\<close> listens on process \<open>b\<close>, and as long as its listeners are registered
  its promise is pending and its buffer holds \<open>r\<close>.
\<close>

definition accumulating :: "gpt4all \<Rightarrow> nat \<Rightarrow> nat \<Rightarrow> string \<Rightarrow> bool" where
  "accumulating g c b r =
     (c < length (calls g) \<and> call_bot (calls g ! c) = b \<and>
      (listening (calls g ! c) \<longrightarrow>
         settled (calls g ! c) = Pending \<and> response (calls g ! c) = r))"


section \<open>Examples\<close>

text \<open>An object on a machine whose disk holds neither file.\<close>

definition sample :: gpt4all where
  "sample = constructed ''/home/u'' [] ''gpt4all-lora-quantized'' []"

text \<open>The same object after \<open>open\<close>, when the process has printed its first prompt.\<close>

definition sample_open :: gpt4all where
  "sample_open = run [CallOpen, Data 0 ''> ''] sample"

text \<open>A chunk that matches the completion pattern: a colour reset, a new line, the prompt.\<close>

definition reset_and_marker :: string where
  "reset_and_marker = ESC # ''[0m'' @ [LF] @ ''> ''"

text \<open>A server that redirects three times and then answers 200.\<close>

definition message_12 :: incomingMessage where
  "message_12 = \<lparr>statusCode = Some 200, headers = [''content-length'' \<mapsto> ''12'']\<rparr>"

definition chain3 :: "string \<Rightarrow> get_result" where
  "chain3 u =
     (if u = ''a'' then Message \<lparr>statusCode = Some 301, headers = [''location'' \<mapsto> ''b'']\<rparr>
      else if u = ''b'' then Message \<lparr>statusCode = Some 302, headers = [''location'' \<mapsto> ''c'']\<rparr>
      else if u = ''c'' then Message \<lparr>statusCode = Some 301, headers = [''location'' \<mapsto> ''d'']\<rparr>
      else if u = ''d'' then Message message_12
      else NoMessage)"

text \<open>Servers that answer every URL with 200, without and with a content-length.\<close>

definition no_length :: "string \<Rightarrow> get_result" where
  "no_length u = Message \<lparr>statusCode = Some 200, headers = Map.empty\<rparr>"

definition with_length :: "string \<Rightarrow> string \<Rightarrow> get_result" where
  "with_length v u = Message \<lparr>statusCode = Some 200, headers = [''content-length'' \<mapsto> v]\<rparr>"

definition empty_disk :: disk where
  "empty_disk = \<lparr>directories = [], write_streams = []\<rparr>"


section \<open>Lemmas on a pending prompt\<close>

lemmas text_defs =
  regex_test_def match_here_def lineTerminator_def ESC_def LF_def CR_def GT_def
  endsWith_gt_def slice_0_minus1_def without_final_gt_def reset_and_marker_def

lemmas handler_defs =
  onStdoutData_def onStdoutError_def onTimeout_def wait_call_def terminateAndResolve_def
  startupListener_run_def resolve_def reject_def idle_ms_def

lemmas session_defs =
  stdout_data_def stdout_error_def elapse_def prompt_def open_session_def open_bot_args_def
  close_def sample_def sample_open_def constructed_def

lemma calls_init: "calls (snd (init forceDownload g)) = calls g"
  by (simp add: init_def start_download_def split: option.split prod.split)

lemma accumulating_step:
  "accumulating g c b r \<Longrightarrow> accumulating (step e g) c b (r @ received b [e])"
  by (cases e)
     (auto simp: accumulating_def stdout_data_def stdout_error_def elapse_def prompt_def
        open_session_def close_def calls_init onStdoutData_def onStdoutError_def wait_call_def
        onTimeout_def terminateAndResolve_def nth_append Let_def
        split: option.splits)

lemma received_append: "received b (es @ es') = received b es @ received b es'"
  by (induction b es rule: received.induct) auto

lemma accumulating_run:
  "accumulating g c b r \<Longrightarrow> accumulating (run es g) c b (r @ received b es)"
proof (induction es arbitrary: g r)
  case Nil
  then show ?case by simp
next
  case (Cons e es)
  have "accumulating (step e g) c b (r @ received b [e])"
    by (rule accumulating_step [OF Cons.prems])
  from Cons.IH [OF this] show ?case
    using received_append [of b "[e]" es] by simp
qed

lemma accumulating_prompt:
  "bot_proc g = Some b \<Longrightarrow> accumulating (snd (prompt text g)) (length (calls g)) b []"
  by (simp add: accumulating_def prompt_def)

lemma accumulating_after_prompt:
  assumes "bot_proc g = Some b"
  shows "accumulating (run es (snd (prompt p g))) (length (calls g)) b (received b es)"
proof -
  have "accumulating (run es (snd (prompt p g))) (length (calls g)) b ([] @ received b es)"
    by (rule accumulating_run [OF accumulating_prompt [OF assms]])
  then show ?thesis by simp
qed

text \<open>What a chunk does to a call whose listeners are registered.\<close>

lemma stdout_data_listening:
  "c < length (calls g) \<Longrightarrow> call_bot (calls g ! c) = b \<Longrightarrow> listening (calls g ! c) \<Longrightarrow>
     calls (stdout_data b text g) ! c = onStdoutData text (calls g ! c)"
  by (simp add: stdout_data_def)

lemma onStdoutData_match:
  "regex_test text \<Longrightarrow> settled c = Pending \<Longrightarrow>
     settled (onStdoutData text c) = Resolved (without_final_gt (response c))"
  by (simp add: onStdoutData_def terminateAndResolve_def resolve_def without_final_gt_def
      Let_def split: option.split)

lemma onStdoutData_no_match:
  "\<not> regex_test text \<Longrightarrow>
     onStdoutData text c = c\<lparr>timeoutId := Some idle_ms, response := response c @ text\<rparr>"
  by (simp add: onStdoutData_def Let_def split: option.split)

lemma response_onStdoutData: "response (onStdoutData text c) = response c @ text"
  by (simp add: onStdoutData_def terminateAndResolve_def Let_def split: option.split)

lemma elapse_call:
  "c < length (calls g) \<Longrightarrow> calls (elapse n g) ! c = wait_call n (calls g ! c)"
  by (simp add: elapse_def)

lemma wait_call_short:
  "timeoutId c = Some d \<Longrightarrow> n < d \<Longrightarrow> wait_call n c = c\<lparr>timeoutId := Some (d - n)\<rparr>"
  by (simp add: wait_call_def)

lemma wait_call_long:
  "timeoutId c = Some d \<Longrightarrow> d \<le> n \<Longrightarrow> settled c = Pending \<Longrightarrow>
     settled (wait_call n c) = Resolved (without_final_gt (response c))"
  by (simp add: wait_call_def onTimeout_def terminateAndResolve_def resolve_def
      without_final_gt_def Let_def)

lemma downloadPromises_init: "downloadPromises (snd (init forceDownload g)) = downloadPromises g"
  by (simp add: init_def start_download_def split: option.split prod.split)


section \<open>Lemmas on redirects\<close>

lemma followRedirects_chain:
  "redirect_chain get u us final \<Longrightarrow>
     followRedirects get (Some u) requested = Some (Inr final, requested @ u # us)"
proof (induction us arbitrary: u requested)
  case Nil
  then show ?case
    by (subst followRedirects.simps) (simp split: get_result.splits)
next
  case (Cons v vs)
  from Cons.prems obtain res where res: "get u = Message res" "redirect res"
    "headers res ''location'' = Some v" "redirect_chain get v vs final"
    by (auto split: get_result.splits)
  have "followRedirects get (Some u) requested = followRedirects get (Some v) (requested @ [u])"
    by (subst followRedirects.simps) (simp add: res)
  also have "\<dots> = Some (Inr final, (requested @ [u]) @ v # vs)"
    by (rule Cons.IH [OF res(4)])
  finally show ?case by simp
qed

lemma redirect_chain_final: "redirect_chain get u us final \<Longrightarrow> \<not> redirect final"
  by (induction us arbitrary: u) (auto split: get_result.splits)

lemmas download_defs =
  downloadFile_def mkdir_recursive_def createWriteStream_def or_0_def Number_of_def
  Number_decimal_def empty_disk_def


section \<open>Properties of provisioning\<close>

text \<open>
  C1. Calls of \<open>init\<close> made while the downloads of an earlier call are in flight should
  return the memoized downloads. The code reads \<open>downloadPromises\<close> and never assigns
  it: on an object made by the constructor, a first \<open>init(true)\<close> starts the two
  downloads and leaves the field null, and a second \<open>init(true)\<close> starts both again and
  waits for two new promises.
\<close>

theorem init_twice_downloads_twice:
  "downloadPromises (snd (init True sample)) = None \<and>
   fst (init True sample) = [0, 1] \<and>
   fst (init True (snd (init True sample))) = [2, 3] \<and>
   downloads (snd (init True (snd (init True sample)))) =
     [DownloadExecutable, DownloadModel, DownloadExecutable, DownloadModel]"
  by (simp add: init_def start_download_def sample_def constructed_def)


text \<open>
  C5. When the response that ends the redirects has no content-length header,
  \<open>downloadFile\<close> rejects its promise, with the status code when the status is not 200
  and with the text on the missing size otherwise, and it creates no write stream: nothing
  is written to the destination.
\<close>

theorem downloadFile_without_content_length:
  assumes "followRedirects get (Some url) [] = Some (Inr res, requested)"
    and "headers res ''content-length'' = None"
  shows "fst (downloadFile number get homedir url destination d) =
           Rejects (if statusCode res = Some 200
                    then Text ''Failed to download: No download size provided by server''
                    else case statusCode res of
                           None \<Rightarrow> Text ''Failed to download''
                         | Some n \<Rightarrow> if n = 0 then Text ''Failed to download'' else StatusCode n) \<and>
         write_streams (snd (downloadFile number get homedir url destination d)) = write_streams d"
  using assms
  by (simp add: downloadFile_def mkdir_recursive_def or_0_def Number_of_def Let_def)

theorem downloadFile_without_content_length_witness:
  "followRedirects no_length (Some ''u'') [] =
     Some (Inr \<lparr>statusCode = Some 200, headers = Map.empty\<rparr>, [''u'']) \<and>
   downloadFile Number_decimal no_length ''/home/u'' ''u'' ''/home/u/.nomic/gpt4all'' empty_disk =
     (Rejects (Text ''Failed to download: No download size provided by server''),
      \<lparr>directories = [''/home/u/.nomic/''], write_streams = []\<rparr>)"
  using downloadFile_without_content_length
    [of no_length "''u''" "\<lparr>statusCode = Some 200, headers = Map.empty\<rparr>" "[''u'']"
       Number_decimal "''/home/u''" "''/home/u/.nomic/gpt4all''" empty_disk]
    followRedirects_chain [of no_length "''u''" "[]" "\<lparr>statusCode = Some 200, headers = Map.empty\<rparr>" "[]"]
  by (simp add: no_length_def redirect_def download_defs)


text \<open>
  C6. When the answers form a chain of redirects, each with the location of the next URL,
  that ends in an answer \<open>final\<close> which is not a redirect, \<open>followRedirects\<close> returns
  \<open>final\<close>, and it has requested the URLs of the chain once each: one request more than
  there are redirects, so four for three redirects.
\<close>

theorem followRedirects_finite_chain:
  "redirect_chain get u us final \<Longrightarrow>
     followRedirects get (Some u) [] = Some (Inr final, u # us) \<and>
     \<not> redirect final \<and>
     (length us = 3 \<longrightarrow> length (snd (the (followRedirects get (Some u) []))) = 4)"
  using followRedirects_chain [of get u us final "[]"] redirect_chain_final [of get u us final]
  by simp

theorem followRedirects_finite_chain_witness:
  "redirect_chain chain3 ''a'' [''b'', ''c'', ''d''] message_12 \<and>
   followRedirects chain3 (Some ''a'') [] = Some (Inr message_12, [''a'', ''b'', ''c'', ''d'']) \<and>
   length (snd (the (followRedirects chain3 (Some ''a'') []))) = 4"
  using followRedirects_finite_chain [of chain3 "''a''" "[''b'', ''c'', ''d'']" message_12]
  by (simp add: chain3_def redirect_def message_12_def)

text \<open>
  C10. When the content-length of the final response is a text that \<open>Number\<close> reads as
  zero or as not-a-number, \<open>downloadFile\<close> rejects as it does for the same response
  without the header: with the text on the missing size when the status is 200. No write
  stream is created.
\<close>

theorem downloadFile_zero_or_unparseable_length:
  assumes "followRedirects get (Some url) [] = Some (Inr res, requested)"
    and "headers res ''content-length'' = Some v"
    and "number v = Num 0 \<or> number v = NaN"
    and "followRedirects get' (Some url') [] =
           Some (Inr (res\<lparr>headers := (headers res)(''content-length'' := None)\<rparr>), requested')"
  shows "fst (downloadFile number get homedir url destination d) =
           fst (downloadFile number get' homedir url' destination d) \<and>
         (statusCode res = Some 200 \<longrightarrow>
            fst (downloadFile number get homedir url destination d) =
              Rejects (Text ''Failed to download: No download size provided by server'')) \<and>
         write_streams (snd (downloadFile number get homedir url destination d)) = write_streams d"
  using assms
  by (auto simp add: downloadFile_def mkdir_recursive_def or_0_def Number_of_def Let_def)

theorem downloadFile_zero_or_unparseable_length_witness:
  "followRedirects (with_length ''0'') (Some ''u'') [] =
     Some (Inr \<lparr>statusCode = Some 200, headers = [''content-length'' \<mapsto> ''0'']\<rparr>, [''u'']) \<and>
   Number_decimal ''0'' = Num 0 \<and>
   followRedirects no_length (Some ''u'') [] =
     Some (Inr \<lparr>statusCode = Some 200, headers = Map.empty\<rparr>, [''u'']) \<and>
   fst (downloadFile Number_decimal (with_length ''0'') ''/home/u'' ''u'' ''/home/u/.nomic/gpt4all'' empty_disk) =
     fst (downloadFile Number_decimal no_length ''/home/u'' ''u'' ''/home/u/.nomic/gpt4all'' empty_disk) \<and>
   fst (downloadFile Number_decimal (with_length ''0'') ''/home/u'' ''u'' ''/home/u/.nomic/gpt4all'' empty_disk) =
     Rejects (Text ''Failed to download: No download size provided by server'') \<and>
   write_streams (snd (downloadFile Number_decimal (with_length ''0'') ''/home/u'' ''u''
     ''/home/u/.nomic/gpt4all'' empty_disk)) = []"
proof -
  let ?res = "\<lparr>statusCode = Some 200, headers = [''content-length'' \<mapsto> ''0'']\<rparr>"
  have a: "followRedirects (with_length ''0'') (Some ''u'') [] = Some (Inr ?res, [''u''])"
    using followRedirects_chain [of "with_length ''0''" "''u''" "[]" ?res "[]"]
    by (simp add: with_length_def redirect_def)
  have b: "headers ?res ''content-length'' = Some ''0''"
    by simp
  have c: "Number_decimal ''0'' = Num 0 \<or> Number_decimal ''0'' = NaN"
    by (simp add: Number_decimal_def)
  have d: "followRedirects no_length (Some ''u'') [] =
      Some (Inr (?res\<lparr>headers := (headers ?res)(''content-length'' := None)\<rparr>), [''u''])"
    using followRedirects_chain [of no_length "''u''" "[]" "\<lparr>statusCode = Some 200, headers = Map.empty\<rparr>" "[]"]
    by (simp add: no_length_def redirect_def)
  show ?thesis
    using downloadFile_zero_or_unparseable_length
        [where number = Number_decimal and v = "''0''" and homedir = "''/home/u''"
           and destination = "''/home/u/.nomic/gpt4all''" and d = empty_disk, OF a b c d]
      a d
    by (simp add: download_defs)
qed


section \<open>Properties of the session\<close>

text \<open>
  C2. Let the call \<open>c\<close> be pending and listening on the process of an open session. A
  second \<open>prompt\<close> is neither refused nor queued: it returns a new promise, which is
  pending, and its text is written to the standard input at once. Whatever events \<open>es\<close>
  follow, as long as both calls still listen both promises are pending and each buffer
  has grown by all the text the process has emitted in \<open>es\<close>; a further chunk is appended
  to both buffers alike.
\<close>

theorem second_prompt_shares_output:
  assumes "bot_proc g = Some b"
    and "c < length (calls g)" and "call_bot (calls g ! c) = b"
    and "listening (calls g ! c)" and "settled (calls g ! c) = Pending"
    and "listening (calls (run es (snd (prompt p g))) ! c)"
    and "listening (calls (run es (snd (prompt p g))) ! length (calls g))"
  shows "fst (prompt p g) = Inr (length (calls g)) \<and>
         stdin_written (snd (prompt p g)) = stdin_written g @ [(b, p @ [LF])] \<and>
         listening (calls (snd (prompt p g)) ! length (calls g)) \<and>
         settled (calls (snd (prompt p g)) ! length (calls g)) = Pending \<and>
         settled (calls (snd (prompt p g)) ! c) = Pending \<and>
         settled (calls (run es (snd (prompt p g))) ! c) = Pending \<and>
         settled (calls (run es (snd (prompt p g))) ! length (calls g)) = Pending \<and>
         response (calls (run es (snd (prompt p g))) ! c) =
           response (calls g ! c) @ received b es \<and>
         response (calls (run es (snd (prompt p g))) ! length (calls g)) = received b es \<and>
         response (calls (stdout_data b text (run es (snd (prompt p g)))) ! c) =
           response (calls g ! c) @ received b es @ text \<and>
         response (calls (stdout_data b text (run es (snd (prompt p g)))) ! length (calls g)) =
           received b es @ text"
proof -
  let ?g1 = "snd (prompt p g)" and ?c2 = "length (calls g)"
  let ?g2 = "run es ?g1"
  have now: "fst (prompt p g) = Inr ?c2"
    "stdin_written ?g1 = stdin_written g @ [(b, p @ [LF])]"
    "listening (calls ?g1 ! ?c2)" "settled (calls ?g1 ! ?c2) = Pending"
    "settled (calls ?g1 ! c) = Pending"
    using assms(1,2,5) by (simp_all add: prompt_def nth_append)
  have "accumulating g c b (response (calls g ! c))"
    using assms(2,3,5) by (simp add: accumulating_def)
  from accumulating_step [OF this, of "CallPrompt p"]
  have "accumulating ?g1 c b (response (calls g ! c))" by simp
  from accumulating_run [OF this, of es] assms(6)
  have first: "c < length (calls ?g2)" "call_bot (calls ?g2 ! c) = b"
    "settled (calls ?g2 ! c) = Pending"
    "response (calls ?g2 ! c) = response (calls g ! c) @ received b es"
    by (simp_all add: accumulating_def)
  from accumulating_after_prompt [OF assms(1), of es p] assms(7)
  have second: "?c2 < length (calls ?g2)" "call_bot (calls ?g2 ! ?c2) = b"
    "settled (calls ?g2 ! ?c2) = Pending"
    "response (calls ?g2 ! ?c2) = received b es"
    by (simp_all add: accumulating_def)
  have chunk1: "response (calls (stdout_data b text ?g2) ! c) =
      response (calls g ! c) @ received b es @ text"
    using stdout_data_listening [OF first(1) first(2) assms(6), of "text"] first(4)
    by (simp add: response_onStdoutData)
  have chunk2: "response (calls (stdout_data b text ?g2) ! ?c2) = received b es @ text"
    using stdout_data_listening [OF second(1) second(2) assms(7), of "text"] second(4)
    by (simp add: response_onStdoutData)
  show ?thesis
    using now first(3,4) second(3,4) chunk1 chunk2 by simp
qed

theorem second_prompt_shares_output_witness:
  "bot_proc (snd (prompt ''a'' sample_open)) = Some 0 \<and>
   (0::nat) < length (calls (snd (prompt ''a'' sample_open))) \<and>
   call_bot (calls (snd (prompt ''a'' sample_open)) ! 0) = 0 \<and>
   listening (calls (snd (prompt ''a'' sample_open)) ! 0) \<and>
   settled (calls (snd (prompt ''a'' sample_open)) ! 0) = Pending \<and>
   listening (calls (run [Data 0 ''x'', Wait 100, Data 0 ''y'']
     (snd (prompt ''b'' (snd (prompt ''a'' sample_open))))) ! 0) \<and>
   listening (calls (run [Data 0 ''x'', Wait 100, Data 0 ''y'']
     (snd (prompt ''b'' (snd (prompt ''a'' sample_open))))) ! 1) \<and>
   fst (prompt ''b'' (snd (prompt ''a'' sample_open))) = Inr 1 \<and>
   stdin_written (snd (prompt ''b'' (snd (prompt ''a'' sample_open)))) =
     [(0, ''a'' @ [LF]), (0, ''b'' @ [LF])] \<and>
   settled (calls (snd (prompt ''b'' (snd (prompt ''a'' sample_open)))) ! 1) = Pending \<and>
   settled (calls (run [Data 0 ''x'', Wait 100, Data 0 ''y'']
     (snd (prompt ''b'' (snd (prompt ''a'' sample_open))))) ! 0) = Pending \<and>
   settled (calls (run [Data 0 ''x'', Wait 100, Data 0 ''y'']
     (snd (prompt ''b'' (snd (prompt ''a'' sample_open))))) ! 1) = Pending \<and>
   response (calls (run [Data 0 ''x'', Wait 100, Data 0 ''y'']
     (snd (prompt ''b'' (snd (prompt ''a'' sample_open))))) ! 0) = ''xy'' \<and>
   response (calls (run [Data 0 ''x'', Wait 100, Data 0 ''y'']
     (snd (prompt ''b'' (snd (prompt ''a'' sample_open))))) ! 1) = ''xy'' \<and>
   response (calls (stdout_data 0 ''z'' (run [Data 0 ''x'', Wait 100, Data 0 ''y'']
     (snd (prompt ''b'' (snd (prompt ''a'' sample_open)))))) ! 0) = ''xyz'' \<and>
   response (calls (stdout_data 0 ''z'' (run [Data 0 ''x'', Wait 100, Data 0 ''y'']
     (snd (prompt ''b'' (snd (prompt ''a'' sample_open)))))) ! 1) = ''xyz''"
  using second_prompt_shares_output
    [of "snd (prompt ''a'' sample_open)" 0 0 "[Data 0 ''x'', Wait 100, Data 0 ''y'']" "''b''" "''z''"]
  by (simp add: session_defs handler_defs text_defs)

theorem second_prompt_counterexample:
  "settled (calls (run [CallPrompt ''a''] sample_open) ! 0) = Pending \<and>
   fst (prompt ''b'' (run [CallPrompt ''a''] sample_open)) = Inr 1 \<and>
   stdin_written (run [CallPrompt ''a'', CallPrompt ''b''] sample_open) =
     [(0, ''a'' @ [LF]), (0, ''b'' @ [LF])] \<and>
   settled (calls (run [CallPrompt ''a'', CallPrompt ''b'', Data 0 ''x''] sample_open) ! 0) = Pending \<and>
   response (calls (run [CallPrompt ''a'', CallPrompt ''b'', Data 0 ''x''] sample_open) ! 0) = ''x'' \<and>
   response (calls (run [CallPrompt ''a'', CallPrompt ''b'', Data 0 ''x''] sample_open) ! 1) = ''x''"
  by (simp add: session_defs handler_defs text_defs)


text \<open>
  C3. After \<open>prompt\<close> on an open session, let the process emit a chunk \<open>t1\<close> that does
  not match the completion pattern and, less than 4000 ms later, a chunk \<open>t2\<close> that
  matches. The promise is pending until \<open>t2\<close> arrives and is resolved by it, with \<open>t1\<close>
  less one final \<^verbatim>\<open>>\<close> when \<open>t1\<close> ends with one: \<^verbatim>\<open>hello>\<close> gives \<^verbatim>\<open>hello\<close>,
  whereas the text \<^verbatim>\<open>hello> \<close> ends with a blank and is resolved as it is.
\<close>

theorem pattern_match_resolves_before_timeout:
  assumes "bot_proc g = Some b" and "\<not> regex_test t1" and "regex_test t2" and "n < idle_ms"
  shows "settled (calls (run [Data b t1, Wait n] (snd (prompt p g))) ! length (calls g)) = Pending \<and>
         settled (calls (run [Data b t1, Wait n, Data b t2] (snd (prompt p g))) ! length (calls g)) =
           Resolved (without_final_gt t1)"
  using assms
  by (simp add: prompt_def stdout_data_def elapse_def onStdoutData_no_match wait_call_short
      onStdoutData_match nth_append)

theorem pattern_match_resolves_before_timeout_witness:
  "bot_proc sample_open = Some 0 \<and> \<not> regex_test ''hello>'' \<and> regex_test reset_and_marker \<and>
   (100::nat) < idle_ms \<and>
   settled (calls (run [Data 0 ''hello>'', Wait 100] (snd (prompt ''hi'' sample_open))) !
     length (calls sample_open)) = Pending \<and>
   settled (calls (run [Data 0 ''hello>'', Wait 100, Data 0 reset_and_marker]
     (snd (prompt ''hi'' sample_open))) ! length (calls sample_open)) = Resolved ''hello''"
  using pattern_match_resolves_before_timeout
    [of sample_open 0 "''hello>''" reset_and_marker 100 "''hi''"]
  by (simp add: session_defs handler_defs text_defs)

theorem prompt_hello_counterexample:
  "\<not> regex_test ''hello> '' \<and> regex_test reset_and_marker \<and>
   settled (calls (run [CallPrompt ''hi'', Data 0 ''hello> '', Data 0 reset_and_marker]
     sample_open) ! 0) = Resolved ''hello> '' \<and>
   settled (calls (run [CallPrompt ''hi'', Data 0 ''hello> '', Data 0 reset_and_marker]
     sample_open) ! 0) \<noteq> Resolved ''hello''"
  by (simp add: session_defs handler_defs text_defs)


text \<open>
  C4. Let a call of \<open>prompt\<close> still listen after the events \<open>es\<close>, and let a chunk arrive
  that does not match the completion pattern. Whatever timer was armed, a timer of 4000 ms
  is armed now; the promise stays pending while less than 4000 ms pass, and once 4000 ms
  have passed without output it is resolved with everything received, less one final
  \<^verbatim>\<open>>\<close> when the text ends with one.
\<close>

theorem idle_timeout_resolves_cleaned:
  assumes "bot_proc g = Some b"
    and "listening (calls (run es (snd (prompt p g))) ! length (calls g))"
    and "\<not> regex_test text"
  shows "timeoutId (calls (stdout_data b text (run es (snd (prompt p g)))) ! length (calls g)) =
           Some idle_ms \<and>
         (n < idle_ms \<longrightarrow>
            settled (calls (elapse n (stdout_data b text (run es (snd (prompt p g))))) !
              length (calls g)) = Pending) \<and>
         (idle_ms \<le> n \<longrightarrow>
            settled (calls (elapse n (stdout_data b text (run es (snd (prompt p g))))) !
              length (calls g)) = Resolved (without_final_gt (received b es @ text)))"
proof -
  let ?g = "run es (snd (prompt p g))" and ?c = "length (calls g)"
  have "accumulating ?g ?c b (received b es)"
    by (rule accumulating_after_prompt [OF assms(1)])
  with assms(2) have c: "?c < length (calls ?g)" "call_bot (calls ?g ! ?c) = b"
    "settled (calls ?g ! ?c) = Pending" "response (calls ?g ! ?c) = received b es"
    by (simp_all add: accumulating_def)
  have len: "?c < length (calls (stdout_data b text ?g))"
    using c(1) by (simp add: stdout_data_def)
  have after: "calls (stdout_data b text ?g) ! ?c =
      (calls ?g ! ?c)\<lparr>timeoutId := Some idle_ms, response := received b es @ text\<rparr>"
    using stdout_data_listening [OF c(1) c(2) assms(2), of "text"]
      onStdoutData_no_match [OF assms(3), of "calls ?g ! ?c"] c(4) by simp
  show ?thesis
    using c(3) by (simp add: elapse_call [OF len] after wait_call_short wait_call_long)
qed

theorem idle_timeout_resolves_cleaned_witness:
  "bot_proc sample_open = Some 0 \<and>
   listening (calls (run [Data 0 ''partial '', Wait 3999] (snd (prompt ''hi'' sample_open))) !
     length (calls sample_open)) \<and>
   timeoutId (calls (run [Data 0 ''partial '', Wait 3999] (snd (prompt ''hi'' sample_open))) !
     length (calls sample_open)) = Some 1 \<and>
   \<not> regex_test ''output'' \<and>
   timeoutId (calls (stdout_data 0 ''output''
     (run [Data 0 ''partial '', Wait 3999] (snd (prompt ''hi'' sample_open)))) !
       length (calls sample_open)) = Some 4000 \<and>
   idle_ms \<le> 4000 \<and>
   settled (calls (elapse 4000 (stdout_data 0 ''output''
     (run [Data 0 ''partial '', Wait 3999] (snd (prompt ''hi'' sample_open))))) !
       length (calls sample_open)) = Resolved ''partial output''"
  using idle_timeout_resolves_cleaned
    [of sample_open 0 "[Data 0 ''partial '', Wait 3999]" "''hi''" "''output''" 4000]
  by (simp add: session_defs handler_defs text_defs)

theorem idle_timeout_counterexample:
  "\<not> regex_test ''done>'' \<and>
   response (calls (run [CallPrompt ''hi'', Data 0 ''done>'', Wait 4000] sample_open) ! 0) = ''done>'' \<and>
   settled (calls (run [CallPrompt ''hi'', Data 0 ''done>'', Wait 4000] sample_open) ! 0) =
     Resolved ''done'' \<and>
   settled (calls (run [CallPrompt ''hi'', Data 0 ''done>'', Wait 4000] sample_open) ! 0) \<noteq>
     Resolved ''done>''"
  by (simp add: session_defs handler_defs text_defs)


text \<open>
  C7. A call of \<open>prompt\<close> made while there is no process handle fails at once with the
  error \<^verbatim>\<open>Bot is not initialized.\<close>: the function is total, it writes to no standard
  input and it leaves the object as it was.
\<close>

theorem prompt_without_bot:
  "bot_proc g = None \<Longrightarrow>
     prompt text g = (Inl (Error ''Bot is not initialized.''), g) \<and>
     stdin_written (snd (prompt text g)) = stdin_written g"
  by (simp add: prompt_def)

theorem prompt_without_bot_witness:
  "bot_proc sample = None \<and>
   prompt ''hi'' sample = (Inl (Error ''Bot is not initialized.''), sample) \<and>
   stdin_written (snd (prompt ''hi'' sample)) = []"
  using prompt_without_bot [of sample "''hi''"]
  by (simp add: sample_def constructed_def)


text \<open>
  C8. \<open>close\<close> is idempotent. On an object without a process it changes nothing and does
  not throw; after a \<open>close\<close> the handle is cleared, and a second \<open>close\<close> right after
  the first changes nothing, so the two calls together kill at most one process.
\<close>

theorem close_idempotent:
  "(bot_proc g = None \<longrightarrow> close g = g) \<and>
   bot_proc (close g) = None \<and>
   close (close g) = close g \<and>
   length (killed (close (close g))) \<le> Suc (length (killed g))"
  by (simp add: close_def split: option.split)

theorem close_idempotent_witness:
  "bot_proc (close sample_open) = None \<and>
   close (close (close sample_open)) = close sample_open \<and>
   killed (close (close sample_open)) = [0]"
  using close_idempotent [of "close sample_open"]
  by (simp add: session_defs)


text \<open>
  C9. Let a call of \<open>prompt\<close> still listen after the events \<open>es\<close>, and let a chunk arrive
  that matches the completion pattern. The promise is resolved with the text received in
  \<open>es\<close>, less one final \<^verbatim>\<open>>\<close>: the matching chunk is appended to the buffer after
  the promise has been resolved and is no part of the result.
\<close>

theorem pattern_match_excludes_matching_chunk:
  assumes "bot_proc g = Some b"
    and "listening (calls (run es (snd (prompt p g))) ! length (calls g))"
    and "regex_test text"
  shows "settled (calls (stdout_data b text (run es (snd (prompt p g)))) ! length (calls g)) =
           Resolved (without_final_gt (received b es))"
proof -
  let ?g = "run es (snd (prompt p g))" and ?c = "length (calls g)"
  have acc: "accumulating ?g ?c b (received b es)"
    by (rule accumulating_after_prompt [OF assms(1)])
  with assms(2) have c: "?c < length (calls ?g)" "call_bot (calls ?g ! ?c) = b"
    "settled (calls ?g ! ?c) = Pending" "response (calls ?g ! ?c) = received b es"
    by (simp_all add: accumulating_def)
  have "calls (stdout_data b text ?g) ! ?c = onStdoutData text (calls ?g ! ?c)"
    by (rule stdout_data_listening [OF c(1) c(2) assms(2)])
  then show ?thesis
    using onStdoutData_match [OF assms(3) c(3)] c(4) by simp
qed

theorem pattern_match_excludes_matching_chunk_witness:
  "bot_proc sample_open = Some 0 \<and>
   listening (calls (run [Data 0 ''hello> '', Wait 1000, Data 0 ''world'']
                      (snd (prompt ''hi'' sample_open))) ! length (calls sample_open)) \<and>
   regex_test reset_and_marker \<and>
   settled (calls (stdout_data 0 reset_and_marker
                    (run [Data 0 ''hello> '', Wait 1000, Data 0 ''world'']
                      (snd (prompt ''hi'' sample_open)))) ! length (calls sample_open)) =
     Resolved ''hello> world''"
  using pattern_match_excludes_matching_chunk
    [of sample_open 0 "[Data 0 ''hello> '', Wait 1000, Data 0 ''world'']" "''hi''" reset_and_marker]
  by (simp add: session_defs handler_defs text_defs)

end
